theory Spec2Isabelle
  imports Complex_Main "HOL-Library.Word"
begin

unbundle bit_operations_syntax

section \<open>Values\<close>

text \<open>
  A C++ \<open>int\<close> is a 32-bit word. \<open>+\<close> and \<open>-\<close> wrap around (the two's complement
  result; C++ leaves signed overflow undefined), and \<open>a <s b\<close> is the signed comparison.
\<close>

type_synonym int32 = "32 word"

text \<open>
  A \<open>float\<close> is kept as the term of float operations that computes it, so that no rounding
  rule is assumed: \<open>FLit q\<close> is the float the compiler gives the literal \<open>q\<close>, \<open>FInt i\<close> is
  the conversion of the \<open>int\<close> \<open>i\<close>, and the four operations are those of the machine.
\<close>

datatype float =
    FLit rat
  | FInt int32
  | FAdd float float
  | FSub float float
  | FMul float float
  | FDiv float float

datatype Vector3DF = Vector3DF (vec_x: float) (vec_y: float) (vec_z: float)

datatype Vector4DF = Vector4DF float float float float

text \<open>\<open>Matrix4F\<close>: the source only ever builds the identity (\<open>xform.Identity()\<close>).\<close>

datatype Matrix4F = Identity4F

text \<open>\<open>Vector3DF::operator+=\<close>, component by component.\<close>

fun vec_add :: "Vector3DF \<Rightarrow> Vector3DF \<Rightarrow> Vector3DF" where
  "vec_add (Vector3DF a b c) (Vector3DF d e f) = Vector3DF (FAdd a d) (FAdd b e) (FAdd c f)"

subsection \<open>The single-precision reading of a float term\<close>

text \<open>
  The value of a float term in IEEE binary32 with round-to-nearest, ties to even, as a
  rational: \<open>pow2 e\<close> is \<open>2\<close> to the \<open>e\<close>, \<open>expo a\<close> is the exponent of the binade of
  \<open>a \<ge> 0\<close> (at least \<open>-126\<close>, where the subnormal numbers lie, at most \<open>127\<close>), the
  spacing of the numbers there is \<open>pow2 (expo a - 23)\<close>, and \<open>rnd32 x\<close> is the multiple of
  that spacing nearest to \<open>x\<close>. \<open>None\<close> stands for a result that is not a finite number
  (an overflow to infinity, a division by zero); \<open>fval\<close> gives the value of a term all of
  whose intermediate results are finite, and \<open>None\<close> otherwise.
\<close>

definition pow2 :: "int \<Rightarrow> rat" where
  "pow2 e = (if 0 \<le> e then 2 ^ nat e else 1 / 2 ^ nat (- e))"

fun expo_from :: "nat \<Rightarrow> int \<Rightarrow> rat \<Rightarrow> int" where
  "expo_from 0 e a = e"
| "expo_from (Suc n) e a = (if pow2 (e + 1) \<le> a then expo_from n (e + 1) a else e)"

definition expo :: "rat \<Rightarrow> int" where
  "expo a = expo_from 253 (- 126) a"

definition round_even :: "rat \<Rightarrow> int" where
  "round_even q =
    (let f = \<lfloor>q\<rfloor>; r = q - of_int f
     in if r < 1/2 then f else if 1/2 < r then f + 1 else if even f then f else f + 1)"

definition rnd32 :: "rat \<Rightarrow> rat option" where
  "rnd32 x =
    (let u = pow2 (expo \<bar>x\<bar> - 23); y = of_int (round_even (x / u)) * u
     in if \<bar>y\<bar> < pow2 128 then Some y else None)"

definition fadd32 :: "rat option \<Rightarrow> rat option \<Rightarrow> rat option" where
  "fadd32 a b = (case (a, b) of (Some x, Some y) \<Rightarrow> rnd32 (x + y) | _ \<Rightarrow> None)"

definition fsub32 :: "rat option \<Rightarrow> rat option \<Rightarrow> rat option" where
  "fsub32 a b = (case (a, b) of (Some x, Some y) \<Rightarrow> rnd32 (x - y) | _ \<Rightarrow> None)"

definition fmul32 :: "rat option \<Rightarrow> rat option \<Rightarrow> rat option" where
  "fmul32 a b = (case (a, b) of (Some x, Some y) \<Rightarrow> rnd32 (x * y) | _ \<Rightarrow> None)"

definition fdiv32 :: "rat option \<Rightarrow> rat option \<Rightarrow> rat option" where
  "fdiv32 a b =
    (case (a, b) of (Some x, Some y) \<Rightarrow> (if y = 0 then None else rnd32 (x / y)) | _ \<Rightarrow> None)"

fun fval :: "float \<Rightarrow> rat option" where
  "fval (FLit q) = rnd32 q"
| "fval (FInt i) = rnd32 (of_int (sint i))"
| "fval (FAdd a b) = fadd32 (fval a) (fval b)"
| "fval (FSub a b) = fsub32 (fval a) (fval b)"
| "fval (FMul a b) = fmul32 (fval a) (fval b)"
| "fval (FDiv a b) = fdiv32 (fval a) (fval b)"


text \<open>The members of \<open>MaterialParams\<close> that \<open>RebuildOptixGraph\<close> assigns.\<close>

record MaterialParams =
  light_width :: float
  shadow_width :: float
  diff_color :: Vector3DF
  spec_color :: Vector3DF
  spec_power :: float
  env_color :: Vector3DF
  refl_width :: float
  refl_color :: Vector3DF
  refr_width :: float
  refr_color :: Vector3DF
  refr_ior :: float
  refr_amount :: float
  refr_offset :: float

section \<open>The engines and the window, as the calls made on them\<close>

text \<open>
  The volume engine (\<open>gvdb\<close>), the ray-tracing engine (\<open>optx\<close>), the scene, its camera and
  light and the window layer are outside this file. Their state is the sequence of the
  state-changing calls the program has made on them, each with its arguments, in program
  order. Console output (\<open>nvprintf\<close>, \<open>printf\<close>, \<open>gprintf\<close>) is not recorded.

  Arguments that are objects of the engines are left out or named by what selects them:
  \<open>AddPolygons\<close> takes the index given to \<open>getModel\<close>, \<open>SetTransferFunc\<close> the scene's
  transfer function, \<open>Render\<close> and \<open>UpdateVolume\<close> the volume engine, \<open>SetCamera\<close> and
  \<open>SetLight\<close> the camera and the light created just before. \<open>SetMaterialParams\<close> carries
  the members written through the pointer it is given.
\<close>

datatype optx_call =
    InitializeOptix int32 int32
  | ClearGraph
  | AddMaterial string string string
  | SetMaterialParams int32 MaterialParams
  | AddVolume int32 Vector3DF Vector3DF Matrix4F int32 char
  | AddPolygons int32 int32 Matrix4F
  | SetTransferFunc
  | ValidateGraph
  | UpdateVolume
  | SetSample int32 int32
  | Render int32 int32
  | ReadOutputTex int32
  | ResizeOutput int32 int32

datatype gvdb_call =
    SetVerbose bool
  | SetProfile bool bool
  | SetCudaDevice int32
  | Initialize
  | AddPath string
  | UseOpenGLAtlas bool
  | CommitGeometry int32
  | SetChannelDefault int32 int32 int32
  | LoadVDB string
  | Measure bool
  | SetTransform Vector3DF Vector3DF Vector3DF Vector3DF
  | SetEpsilon float int32
  | CommitTransferFunc
  | AddRenderBuf int32 int32 int32 int32
  | ResizeRenderBuf int32 int32 int32 int32
  | RenderGvdb int32 int32 int32
  | ReadRenderTexGL int32 int32

datatype scene_call =
    AddModel string float float float float
  | SetSteps float float float
  | SetExtinct float float float
  | SetVolumeRange float float float
  | SetCutoff float float float
  | SetBackgroundClr float float float float
  | LinearTransferFunc float float Vector4DF Vector4DF
  | SetCamera
  | SetLight int32

datatype camera_call =
    NewCamera3D
  | setFov float
  | setOrbit Vector3DF Vector3DF float float
  | moveRelative float float float

datatype light_call =
    NewLight
  | setOrbitLight Vector3DF Vector3DF float float

datatype window_call =
    glViewport int32 int32 int32 int32
  | createScreenQuadGL int32 int32 int32
  | clearScreenGL
  | renderScreenQuadGL int32
  | postRedisplay

datatype call =
    Optx optx_call
  | Gvdb gvdb_call
  | Scene scene_call
  | Camera camera_call
  | Light light_call
  | Window window_call

text \<open>
  What the headers declare and what the engines answer is not in the source file either,
  and is a parameter of the model: the enumerators and macros the code compares against,
  the values the engines return, each as a function of the calls made so far, the size of
  the window, and the indeterminate contents of the two locals of \<open>RebuildOptixGraph\<close>
  that its \<open>switch\<close> may leave unassigned.
\<close>

record env =
  SHADE_TRILINEAR :: int32
  SHADE_VOLUME :: int32
  SHADE_EMPTYSKIP :: int32
  MOUSE_BUTTON_LEFT :: int32
  MOUSE_BUTTON_MIDDLE :: int32
  MOUSE_BUTTON_RIGHT :: int32
  BUTTON_PRESS :: int32
  BUTTON_RELEASE :: int32
  KMOD_SHIFT :: int32
  GVDB_DEV_CURRENT :: int32
  GVDB_DEV_FIRST :: int32
  ASSET_PATH :: string
  getWidth :: int32
  getHeight :: int32
  AddMaterial_result :: "call list \<Rightarrow> int32"
  getWorldMin :: "call list \<Rightarrow> Vector3DF"
  getWorldMax :: "call list \<Rightarrow> Vector3DF"
  getAtlasGLID :: "call list \<Rightarrow> int32 \<Rightarrow> int32"
  FindFile_result :: "call list \<Rightarrow> string \<Rightarrow> bool \<times> string"
  LoadVDB_result :: "call list \<Rightarrow> string \<Rightarrow> bool"
  createScreenQuadGL_result :: "call list \<Rightarrow> int32"
  getAng :: "call list \<Rightarrow> Vector3DF"
  getToPos :: "call list \<Rightarrow> Vector3DF"
  getOrbitDist :: "call list \<Rightarrow> float"
  getDolly :: "call list \<Rightarrow> float"
  uninit_matid :: int32
  uninit_isect :: char

text \<open>
  The labels of one \<open>switch\<close> are distinct (the compiler rejects a duplicate), the two
  button actions differ, and no button enumerator is \<open>-1\<close>, the value \<open>mouse_down\<close> holds
  when no button is down.
\<close>

definition wf_env :: "env \<Rightarrow> bool" where
  "wf_env E \<longleftrightarrow>
     distinct [SHADE_TRILINEAR E, SHADE_VOLUME E, SHADE_EMPTYSKIP E] \<and>
     distinct [MOUSE_BUTTON_LEFT E, MOUSE_BUTTON_MIDDLE E, MOUSE_BUTTON_RIGHT E, - 1] \<and>
     BUTTON_PRESS E \<noteq> BUTTON_RELEASE E"

section \<open>The session object\<close>

text \<open>
  The members of \<open>class Sample\<close>, the modifier mask of its base class \<open>NVPWindow\<close> that
  \<open>getMods()\<close> reads (the window system writes it), and the calls made so far. Beside
  each call, \<open>at_call\<close> keeps the values \<open>(frame, sample)\<close> that the members hold at the
  moment the call is made, so that the order of a call and an assignment can be read off.
\<close>

record Sample =
  gl_screen_tex :: int32
  mouse_down :: int32
  delta :: Vector3DF
  frame :: int32
  sample :: int32
  max_samples :: int32
  m_shading :: int32
  m_render_optix :: bool
  m_translate :: Vector3DF
  mat_surf1 :: int32
  mat_deep :: int32
  mods :: int32
  calls :: "call list"
  at_call :: "(int32 \<times> int32) list"

definition call :: "call \<Rightarrow> Sample \<Rightarrow> Sample" where
  "call c s = s\<lparr>calls := calls s @ [c], at_call := at_call s @ [(frame s, sample s)]\<rparr>"

section \<open>Progressive render loop\<close>

text \<open>\<open>Sample::display\<close>, statement by statement.\<close>

definition display :: "Sample \<Rightarrow> Sample" where
  "display s0 =
    (let s1 = (if m_render_optix s0 then call (Optx (SetSample (frame s0) (sample s0))) s0
               else s0);
         s2 = call (Window clearScreenGL) s1;
         s3 = s2\<lparr>sample := sample s2 + 1\<rparr>;
         s4 = (if sample s3 <s max_samples s3 then call (Window postRedisplay) s3
               else s3\<lparr>frame := frame s3 + 1, sample := 0\<rparr>);
         s5 = (if m_render_optix s4
               then call (Optx (ReadOutputTex (gl_screen_tex s4)))
                      (call (Optx (Render (m_shading s4) 0)) s4)
               else call (Gvdb (ReadRenderTexGL 0 (gl_screen_tex s4)))
                      (call (Gvdb (RenderGvdb (m_shading s4) 0 0)) s4));
         s6 = call (Window (renderScreenQuadGL (gl_screen_tex s5))) s5
     in call (Window postRedisplay) s6)"

section \<open>Scene graph builder\<close>

text \<open>
  The values \<open>RebuildOptixGraph\<close> writes through the pointer that
  \<open>getMaterialParams(mat_surf1)\<close> returns; the same pointer is then given to
  \<open>SetMaterialParams\<close> for both materials.
\<close>

definition matp :: MaterialParams where
  "matp =
    \<lparr>light_width = FLit (1/2), shadow_width = FLit (1/2),
     diff_color = Vector3DF (FLit (1/2)) (FLit (27/50)) (FLit (1/2)),
     spec_color = Vector3DF (FLit (7/10)) (FLit (7/10)) (FLit (7/10)),
     spec_power = FLit 80,
     env_color = Vector3DF (FLit 0) (FLit 0) (FLit 0),
     refl_width = FLit (3/10),
     refl_color = Vector3DF (FLit (4/5)) (FLit (4/5)) (FLit (4/5)),
     refr_width = FLit 0,
     refr_color = Vector3DF (FLit 0) (FLit 0) (FLit 0),
     refr_ior = FLit (6/5), refr_amount = FLit 1, refr_offset = FLit 15\<rparr>"

text \<open>
  \<open>Sample::RebuildOptixGraph\<close>, first part: the graph is cleared and the two materials are
  registered, whatever \<open>shading\<close> is.
\<close>

definition add_materials :: "env \<Rightarrow> Sample \<Rightarrow> Sample" where
  "add_materials E s0 =
    (let s1 = call (Optx ClearGraph) s0;
         s2 = call (Optx (AddMaterial ''optix_trace_surface'' ''trace_surface'' ''trace_shadow'')) s1;
         s3 = s2\<lparr>mat_surf1 := AddMaterial_result E (calls s2)\<rparr>;
         s4 = call (Optx (SetMaterialParams (mat_surf1 s3) matp)) s3;
         s5 = call (Optx (AddMaterial ''optix_trace_deep'' ''trace_deep'' ''trace_shadow'')) s4;
         s6 = s5\<lparr>mat_deep := AddMaterial_result E (calls s5)\<rparr>
     in call (Optx (SetMaterialParams (mat_deep s6) matp)) s6)"

text \<open>
  \<open>Sample::RebuildOptixGraph\<close>. The \<open>switch\<close> has no \<open>default\<close>: for any other value
  of \<open>shading\<close> the locals \<open>matid\<close> and \<open>isect\<close> keep their indeterminate contents. The
  function returns \<open>void\<close> and has no error path.
\<close>

definition RebuildOptixGraph :: "env \<Rightarrow> int32 \<Rightarrow> Sample \<Rightarrow> Sample" where
  "RebuildOptixGraph E shading s0 =
    (let s7 = add_materials E s0;
         (matid, isect) =
           (if shading = SHADE_TRILINEAR E then (mat_surf1 s7, CHR ''S'')
            else if shading = SHADE_VOLUME E then (mat_deep s7, CHR ''D'')
            else if shading = SHADE_EMPTYSKIP E then (mat_surf1 s7, CHR ''E'')
            else (uninit_matid E, uninit_isect E));
         volmin = getWorldMin E (calls s7);
         volmax = getWorldMax E (calls s7);
         xform = Identity4F;
         atlas_glid = getAtlasGLID E (calls s7) 0;
         s8 = call (Optx (AddVolume atlas_glid volmin volmax xform matid isect)) s7;
         s9 = call (Optx (AddPolygons 0 0 xform)) s8;
         s10 = call (Optx SetTransferFunc) s9;
         s11 = call (Optx ValidateGraph) s10
     in call (Optx UpdateVolume) s11)"

section \<open>Initialisation\<close>

text \<open>
  Modelled from the spec: \<open>gerror\<close> is not in the source file; a missing asset is fatal
  and aborts startup, so \<open>init\<close> ends there with an error.
\<close>

datatype error = AssetMissing

definition calls_all :: "call list \<Rightarrow> Sample \<Rightarrow> Sample" where
  "calls_all cs s = foldl (\<lambda>s1 c. call c s1) s cs"

text \<open>\<open>createScreenQuadGL(&gl_screen_tex, w, h)\<close> creates or resizes the texture.\<close>

definition createScreenQuad :: "env \<Rightarrow> int32 \<Rightarrow> int32 \<Rightarrow> Sample \<Rightarrow> Sample" where
  "createScreenQuad E w h s =
    (let s1 = call (Window (createScreenQuadGL (gl_screen_tex s) w h)) s
     in s1\<lparr>gl_screen_tex := createScreenQuadGL_result E (calls s1)\<rparr>)"

text \<open>\<open>Sample::init\<close>: the members, then the volume engine up to the search for the file.\<close>

definition init_members :: "env \<Rightarrow> Sample \<Rightarrow> Sample" where
  "init_members E s =
    s\<lparr>mouse_down := - 1, gl_screen_tex := - 1, frame := 0, sample := 0,
      max_samples := 1024, m_render_optix := True, m_shading := SHADE_VOLUME E,
      m_translate := Vector3DF (FLit (- 200)) (FLit 0) (FLit (- 400))\<rparr>"

definition init_engines :: "env \<Rightarrow> Sample \<Rightarrow> Sample" where
  "init_engines E s =
    (let s1 = (if m_render_optix s then call (Optx (InitializeOptix (getWidth E) (getHeight E))) s
               else s)
     in calls_all
          [Gvdb (SetVerbose True),
           Gvdb (SetProfile False False),
           Gvdb (SetCudaDevice (if m_render_optix s1 then GVDB_DEV_CURRENT E else GVDB_DEV_FIRST E)),
           Gvdb Initialize,
           Gvdb (AddPath ''../source/shared_assets/''),
           Gvdb (AddPath ''../shared_assets/''),
           Gvdb (AddPath (ASSET_PATH E)),
           Gvdb (UseOpenGLAtlas True),
           Scene (AddModel ''lucy.obj'' (FLit 1) (FLit 0) (FLit 0) (FLit 0)),
           Gvdb (CommitGeometry 0)] s1)"

text \<open>The volume, scene, camera and light parameters set once the dataset is loaded.\<close>

definition init_scene :: "Sample \<Rightarrow> Sample" where
  "init_scene s =
    calls_all
      [Gvdb (Measure True),
       Gvdb (SetTransform (Vector3DF (FLit 0) (FLit 90) (FLit 0))
               (Vector3DF (FLit (1/4)) (FLit (1/4)) (FLit (1/4)))
               (Vector3DF (FLit 0) (FLit 0) (FLit 0)) (m_translate s)),
       Gvdb (SetEpsilon (FLit (1/1000)) 256),
       Scene (SetSteps (FLit (1/10)) (FLit 64) (FLit (1/5))),
       Scene (SetExtinct (FLit (- 1)) (FLit 1) (FLit (1/10))),
       Scene (SetVolumeRange (FLit (1/1000)) (FLit 0) (FLit (3/10))),
       Scene (SetCutoff (FLit (1/10000)) (FLit (1/10000)) (FLit 0)),
       Scene (SetBackgroundClr (FLit (1/10)) (FLit (1/5)) (FLit (2/5)) (FLit 1)),
       Scene (LinearTransferFunc (FLit 0) (FLit 1)
               (Vector4DF (FLit 0) (FLit 0) (FLit 0) (FLit 0))
               (Vector4DF (FLit 1) (FLit 1) (FLit 1) (FLit (1/10)))),
       Gvdb CommitTransferFunc,
       Camera NewCamera3D,
       Camera (setFov (FLit 30)),
       Camera (setOrbit (Vector3DF (FLit (- 20)) (FLit 30) (FLit 0))
                 (Vector3DF (FLit 0) (FLit 0) (FLit 0)) (FLit 500) (FLit 1)),
       Scene SetCamera,
       Light NewLight,
       Light (setOrbitLight (Vector3DF (FLit 45) (FLit 45) (FLit 0))
                (Vector3DF (FLit 0) (FLit 0) (FLit 0)) (FLit 200) (FLit 1)),
       Scene (SetLight 0)] s"

definition init :: "env \<Rightarrow> Sample \<Rightarrow> error + Sample" where
  "init E s0 =
    (let w = getWidth E; h = getHeight E;
         s1 = init_engines E (init_members E s0);
         (found, scnpath) = FindFile_result E (calls s1) ''wdas_cloud_eighth.vdb''
     in if \<not> found then Inl AssetMissing
        else
          (let s2 = call (Gvdb (SetChannelDefault 16 16 1)) s1;
               loaded = LoadVDB_result E (calls s2) scnpath;
               s3 = call (Gvdb (LoadVDB scnpath)) s2
           in if \<not> loaded then Inl AssetMissing
              else
                (let s4 = init_scene s3;
                     s5 = call (Gvdb (AddRenderBuf 0 w h 4)) s4;
                     s6 = createScreenQuad E w h s5
                 in Inr (if m_render_optix s6 then RebuildOptixGraph E (m_shading s6) s6
                         else s6))))"

text \<open>
  What the successful path of \<open>init\<close> has done before it rebuilds the graph, for the path
  \<open>scnpath\<close> that \<open>FindFile\<close> answered.
\<close>

definition init_tail :: "env \<Rightarrow> Sample \<Rightarrow> string \<Rightarrow> Sample" where
  "init_tail E s scnpath =
    createScreenQuad E (getWidth E) (getHeight E)
      (call (Gvdb (AddRenderBuf 0 (getWidth E) (getHeight E) 4))
        (init_scene (call (Gvdb (LoadVDB scnpath))
          (call (Gvdb (SetChannelDefault 16 16 1)) (init_engines E (init_members E s))))))"

section \<open>Window events\<close>

text \<open>\<open>Sample::reshape\<close>.\<close>

definition reshape :: "env \<Rightarrow> Sample \<Rightarrow> int32 \<Rightarrow> int32 \<Rightarrow> Sample" where
  "reshape E s0 w h =
    (let s1 = call (Window (glViewport 0 0 w h)) s0;
         s2 = createScreenQuad E w h s1;
         s3 = call (Gvdb (ResizeRenderBuf 0 w h 4)) s2;
         s4 = (if m_render_optix s3 then call (Optx (ResizeOutput w h)) s3 else s3)
     in call (Window postRedisplay) s4)"

text \<open>
  \<open>Sample::motion\<close>. The \<open>switch\<close> on \<open>mouse_down\<close> is the chain of comparisons with its
  three labels; with no label matching, nothing is executed.
\<close>

definition move_volume :: "Sample \<Rightarrow> Sample" where
  "move_volume s =
    call (Gvdb (SetTransform (Vector3DF (FLit 0) (FLit 0) (FLit 0))
                  (Vector3DF (FLit (1/4)) (FLit (1/4)) (FLit (1/4)))
                  (Vector3DF (FLit 0) (FLit 0) (FLit 0)) (m_translate s))) s"

definition motion :: "env \<Rightarrow> Sample \<Rightarrow> int32 \<Rightarrow> int32 \<Rightarrow> int32 \<Rightarrow> int32 \<Rightarrow> Sample" where
  "motion E s0 x y dx dy =
    (let shift = (mods s0 AND KMOD_SHIFT E \<noteq> 0) in
     if mouse_down s0 = MOUSE_BUTTON_LEFT E then
       (let s1 =
          (if shift then
             (let t = m_translate s0;
                  t1 = Vector3DF (FSub (vec_x t) (FInt dx)) (vec_y t) (vec_z t);
                  t2 = Vector3DF (vec_x t1) (vec_y t1) (FSub (vec_z t1) (FInt dy))
              in move_volume (s0\<lparr>m_translate := t2\<rparr>))
           else
             (let angs = getAng E (calls s0);
                  s = s0\<lparr>delta := Vector3DF (FMul (FInt dx) (FLit (1/5)))
                                    (FMul (FInt (- dy)) (FLit (1/5))) (FLit 0)\<rparr>;
                  angs1 = vec_add angs (delta s)
              in call (Camera (setOrbit angs1 (getToPos E (calls s))
                                 (getOrbitDist E (calls s)) (getDolly E (calls s)))) s))
        in call (Window postRedisplay) (s1\<lparr>sample := 0\<rparr>))
     else if mouse_down s0 = MOUSE_BUTTON_MIDDLE E then
       (let s1 = call (Camera (moveRelative
                         (FDiv (FMul (FInt dx) (getOrbitDist E (calls s0))) (FLit 1000))
                         (FDiv (FMul (FInt (- dy)) (getOrbitDist E (calls s0))) (FLit 1000))
                         (FLit 0))) s0
        in call (Window postRedisplay) (s1\<lparr>sample := 0\<rparr>))
     else if mouse_down s0 = MOUSE_BUTTON_RIGHT E then
       (let s1 =
          (if shift then
             (let t = m_translate s0;
                  t1 = Vector3DF (vec_x t) (FAdd (vec_y t) (FInt dy)) (vec_z t)
              in move_volume (s0\<lparr>m_translate := t1\<rparr>))
           else
             (let dist = FSub (getOrbitDist E (calls s0)) (FInt dy)
              in call (Camera (setOrbit (getAng E (calls s0)) (getToPos E (calls s0))
                                 dist (getDolly E (calls s0)))) s0))
        in call (Window postRedisplay) (s1\<lparr>sample := 0\<rparr>))
     else s0)"

text \<open>\<open>Sample::mouse\<close>.\<close>

definition mouse :: "env \<Rightarrow> Sample \<Rightarrow> int32 \<Rightarrow> int32 \<Rightarrow> int32 \<Rightarrow> int32 \<Rightarrow> int32 \<Rightarrow> Sample" where
  "mouse E s button state mds x y =
    s\<lparr>mouse_down := (if state = BUTTON_PRESS E then button else - 1)\<rparr>"

text \<open>
  A drag is a sequence of pointer-motion events; each arrives with the modifier mask the
  window holds at that moment and the arguments of \<open>motion\<close>.
\<close>

type_synonym motion_event = "int32 \<times> int32 \<times> int32 \<times> int32 \<times> int32"

fun motion_event :: "env \<Rightarrow> Sample \<Rightarrow> motion_event \<Rightarrow> Sample" where
  "motion_event E s (m, x, y, dx, dy) = motion E (s\<lparr>mods := m\<rparr>) x y dx dy"

definition drag :: "env \<Rightarrow> Sample \<Rightarrow> motion_event list \<Rightarrow> Sample" where
  "drag E s evs = foldl (motion_event E) s evs"

text \<open>A button is held when \<open>mouse_down\<close> is one of the three labels of the \<open>switch\<close>.\<close>

definition held :: "env \<Rightarrow> Sample \<Rightarrow> bool" where
  "held E s \<longleftrightarrow>
     mouse_down s = MOUSE_BUTTON_LEFT E \<or> mouse_down s = MOUSE_BUTTON_MIDDLE E \<or>
     mouse_down s = MOUSE_BUTTON_RIGHT E"

section \<open>Reading the call sequence\<close>

text \<open>The calls one rebuild makes, and the (material id, intersection tag) of each volume node.\<close>

definition graph_calls :: "env \<Rightarrow> int32 \<Rightarrow> Sample \<Rightarrow> call list" where
  "graph_calls E shading s = drop (length (calls s)) (calls (RebuildOptixGraph E shading s))"

fun volume_node :: "call \<Rightarrow> (int32 \<times> char) list" where
  "volume_node (Optx (AddVolume a lo hi x m t)) = [(m, t)]"
| "volume_node other = []"

definition volume_nodes :: "call list \<Rightarrow> (int32 \<times> char) list" where
  "volume_nodes cs = concat (map volume_node cs)"

text \<open>
  The calls of one display tick from \<open>s\<close>, each with the \<open>(frame, sample)\<close> the members
  hold when it is made.
\<close>

definition tick_trace :: "Sample \<Rightarrow> (call \<times> int32 \<times> int32) list" where
  "tick_trace s =
    zip (drop (length (calls s)) (calls (display s)))
        (drop (length (at_call s)) (at_call (display s)))"

text \<open>
  Modelled from the spec: \<open>Camera3D\<close> is not in the source file. The camera holds its
  orbit angles, look-at target, orbit distance and dolly; \<open>setOrbit\<close> stores the angles it
  is given, and panning the target or setting the field of view leaves them. The angles
  of a camera just created are not known.
\<close>

fun orbit_step :: "Vector3DF option \<Rightarrow> call \<Rightarrow> Vector3DF option" where
  "orbit_step a (Camera (setOrbit angs tp d l)) = Some angs"
| "orbit_step a (Camera NewCamera3D) = None"
| "orbit_step a other = a"

definition orbit_angles :: "call list \<Rightarrow> Vector3DF option" where
  "orbit_angles cs = foldl orbit_step None cs"

section \<open>A concrete session\<close>

text \<open>
  An instance of the parameters, for running the model: distinct numbers for the
  enumerators, a \<open>1024 \<times> 768\<close> window (the size \<open>sample_main\<close> asks for), engines that
  find and load the dataset and number materials from 0, a camera that answers with the
  angles last stored in it, and a session object whose members are all zero before
  \<open>init\<close>.
\<close>

fun is_AddMaterial :: "call \<Rightarrow> bool" where
  "is_AddMaterial (Optx (AddMaterial a b c)) = True"
| "is_AddMaterial other = False"

definition env0 :: env where
  "env0 =
    \<lparr>SHADE_TRILINEAR = 4, SHADE_VOLUME = 7, SHADE_EMPTYSKIP = 3,
     MOUSE_BUTTON_LEFT = 0, MOUSE_BUTTON_MIDDLE = 1, MOUSE_BUTTON_RIGHT = 2,
     BUTTON_PRESS = 1, BUTTON_RELEASE = 0, KMOD_SHIFT = 1,
     GVDB_DEV_CURRENT = - 2, GVDB_DEV_FIRST = - 1,
     ASSET_PATH = ''assets/'',
     getWidth = 1024, getHeight = 768,
     AddMaterial_result = (\<lambda>cs. of_nat (length (filter is_AddMaterial cs)) - 1),
     getWorldMin = (\<lambda>cs. Vector3DF (FLit 0) (FLit 0) (FLit 0)),
     getWorldMax = (\<lambda>cs. Vector3DF (FLit 100) (FLit 100) (FLit 100)),
     getAtlasGLID = (\<lambda>cs chan. 1),
     FindFile_result = (\<lambda>cs name. (True, ''assets/'' @ name)),
     LoadVDB_result = (\<lambda>cs path. True),
     createScreenQuadGL_result = (\<lambda>cs. 1),
     getAng = (\<lambda>cs. case orbit_angles cs of Some angs \<Rightarrow> angs
                       | None \<Rightarrow> Vector3DF (FLit 0) (FLit 0) (FLit 0)),
     getToPos = (\<lambda>cs. Vector3DF (FLit 0) (FLit 0) (FLit 0)),
     getOrbitDist = (\<lambda>cs. FLit 500),
     getDolly = (\<lambda>cs. FLit 1),
     uninit_matid = 0, uninit_isect = CHR ''?''\<rparr>"

definition fresh :: Sample where
  "fresh =
    \<lparr>gl_screen_tex = 0, mouse_down = 0,
     delta = Vector3DF (FLit 0) (FLit 0) (FLit 0),
     frame = 0, sample = 0, max_samples = 0, m_shading = 0, m_render_optix = False,
     m_translate = Vector3DF (FLit 0) (FLit 0) (FLit 0),
     mat_surf1 = 0, mat_deep = 0, mods = 0, calls = [], at_call = []\<rparr>"

text \<open>The session \<open>init\<close> returns there.\<close>

definition session0 :: Sample where
  "session0 = (case init env0 fresh of Inr s \<Rightarrow> s | Inl e \<Rightarrow> fresh)"

section \<open>Signed arithmetic on \<open>int\<close>\<close>

lemma sint_succ:
  fixes a :: int32
  assumes "sint a + 1 < 2 ^ 31"
  shows "sint (a + 1) = sint a + 1"
proof -
  have lo: "- (2 ^ 31) \<le> sint a" using sint_ge [of a] by simp
  have "sint (a + 1) = signed_take_bit 31 (sint a + 1)"
    by (simp add: sint_word_ariths)
  also have "\<dots> = sint a + 1"
    using lo assms by (simp add: signed_take_bit_int_eq_self)
  finally show ?thesis .
qed

lemma sint_max_bound: "sint (m :: int32) < 2 ^ 31"
  using sint_lt [of m] by simp

lemma sint_of_nat32: "n < 2 ^ 31 \<Longrightarrow> sint (of_nat n :: int32) = int n"
proof -
  assume h: "n < 2 ^ 31"
  have "sint (of_nat n :: int32) = signed_take_bit 31 (int n)"
    by (simp add: signed_of_nat)
  also have "\<dots> = int n"
    using h by (simp add: signed_take_bit_int_eq_self)
  finally show ?thesis .
qed

section \<open>Single-precision values\<close>




lemma fadd32_session_angles:
  "fadd32 (fval (FLit (- 20))) (Some 2) = Some (- 18)"
  "fadd32 (fval (FLit 30)) (Some 1) = Some 31"
  "fadd32 (fval (FLit 0)) (Some 0) = Some 0"
  by code_simp+



section \<open>What each step leaves alone\<close>

lemma call_members:
  "gl_screen_tex (call c s) = gl_screen_tex s" "mouse_down (call c s) = mouse_down s"
  "delta (call c s) = delta s"
  "frame (call c s) = frame s" "sample (call c s) = sample s"
  "max_samples (call c s) = max_samples s" "m_shading (call c s) = m_shading s"
  "m_render_optix (call c s) = m_render_optix s" "m_translate (call c s) = m_translate s"
  "mat_surf1 (call c s) = mat_surf1 s" "mat_deep (call c s) = mat_deep s"
  "mods (call c s) = mods s"
  by (simp_all add: call_def)

lemma call_calls: "calls (call c s) = calls s @ [c]"
  by (simp add: call_def)

lemma call_at: "at_call (call c s) = at_call s @ [(frame s, sample s)]"
  by (simp add: call_def)

lemma calls_all_members:
  "frame (calls_all cs s) = frame s" "sample (calls_all cs s) = sample s"
  "max_samples (calls_all cs s) = max_samples s"
  "m_translate (calls_all cs s) = m_translate s"
  unfolding calls_all_def
  by (induction cs arbitrary: s) (simp_all add: call_members)

lemma calls_all_calls: "calls (calls_all cs s) = calls s @ cs"
  unfolding calls_all_def
  by (induction cs arbitrary: s) (simp_all add: call_calls)

lemma add_materials_members:
  "gl_screen_tex (add_materials E s) = gl_screen_tex s" "mouse_down (add_materials E s) = mouse_down s"
  "delta (add_materials E s) = delta s"
  "frame (add_materials E s) = frame s" "sample (add_materials E s) = sample s"
  "max_samples (add_materials E s) = max_samples s" "m_shading (add_materials E s) = m_shading s"
  "m_render_optix (add_materials E s) = m_render_optix s"
  "m_translate (add_materials E s) = m_translate s" "mods (add_materials E s) = mods s"
  by (simp_all add: add_materials_def Let_def call_members)

lemma add_materials_surf1:
  "mat_surf1 (add_materials E s) =
     AddMaterial_result E (calls s @ [Optx ClearGraph,
       Optx (AddMaterial ''optix_trace_surface'' ''trace_surface'' ''trace_shadow'')])"
  by (simp add: add_materials_def Let_def call_members call_calls)

lemma add_materials_deep:
  "mat_deep (add_materials E s) =
     AddMaterial_result E (calls s @ [Optx ClearGraph,
       Optx (AddMaterial ''optix_trace_surface'' ''trace_surface'' ''trace_shadow''),
       Optx (SetMaterialParams (mat_surf1 (add_materials E s)) matp),
       Optx (AddMaterial ''optix_trace_deep'' ''trace_deep'' ''trace_shadow'')])"
  by (simp add: add_materials_def Let_def call_members call_calls)

lemma add_materials_calls:
  "calls (add_materials E s) =
     calls s @ [Optx ClearGraph,
       Optx (AddMaterial ''optix_trace_surface'' ''trace_surface'' ''trace_shadow''),
       Optx (SetMaterialParams (mat_surf1 (add_materials E s)) matp),
       Optx (AddMaterial ''optix_trace_deep'' ''trace_deep'' ''trace_shadow''),
       Optx (SetMaterialParams (mat_deep (add_materials E s)) matp)]"
  by (simp add: add_materials_def Let_def call_members call_calls)

lemma rebuild_members:
  "frame (RebuildOptixGraph E sh s) = frame s"
  "sample (RebuildOptixGraph E sh s) = sample s"
  "max_samples (RebuildOptixGraph E sh s) = max_samples s"
  "mat_surf1 (RebuildOptixGraph E sh s) = mat_surf1 (add_materials E s)"
  "mat_deep (RebuildOptixGraph E sh s) = mat_deep (add_materials E s)"
  by (simp_all add: RebuildOptixGraph_def call_members add_materials_members Let_def
      case_prod_beta)

lemma rebuild_calls:
  "calls (RebuildOptixGraph E sh s) =
     calls (add_materials E s) @
       [Optx (AddVolume (getAtlasGLID E (calls (add_materials E s)) 0)
                (getWorldMin E (calls (add_materials E s)))
                (getWorldMax E (calls (add_materials E s))) Identity4F
                (if sh = SHADE_TRILINEAR E then mat_surf1 (add_materials E s)
                 else if sh = SHADE_VOLUME E then mat_deep (add_materials E s)
                 else if sh = SHADE_EMPTYSKIP E then mat_surf1 (add_materials E s)
                 else uninit_matid E)
                (if sh = SHADE_TRILINEAR E then CHR ''S''
                 else if sh = SHADE_VOLUME E then CHR ''D''
                 else if sh = SHADE_EMPTYSKIP E then CHR ''E''
                 else uninit_isect E)),
        Optx (AddPolygons 0 0 Identity4F), Optx SetTransferFunc, Optx ValidateGraph,
        Optx UpdateVolume]"
  by (simp add: RebuildOptixGraph_def Let_def call_members call_calls case_prod_beta)

lemma createScreenQuad_members:
  "frame (createScreenQuad E w h s) = frame s" "sample (createScreenQuad E w h s) = sample s"
  "max_samples (createScreenQuad E w h s) = max_samples s"
  "m_render_optix (createScreenQuad E w h s) = m_render_optix s"
  by (simp_all add: createScreenQuad_def call_members Let_def)

lemma createScreenQuad_calls:
  "calls (createScreenQuad E w h s) = calls s @ [Window (createScreenQuadGL (gl_screen_tex s) w h)]"
  by (simp add: createScreenQuad_def Let_def call_calls)

lemma init_engines_members:
  "frame (init_engines E s) = frame s" "sample (init_engines E s) = sample s"
  "max_samples (init_engines E s) = max_samples s"
  by (simp_all add: init_engines_def Let_def calls_all_members call_members)

lemma init_scene_members:
  "frame (init_scene s) = frame s" "sample (init_scene s) = sample s"
  "max_samples (init_scene s) = max_samples s"
  by (simp_all add: init_scene_def calls_all_members)

lemma init_members_counters:
  "frame (init_members E s) = 0" "sample (init_members E s) = 0"
  "max_samples (init_members E s) = 1024"
  by (simp_all add: init_members_def)

lemma m_translate_members:
  "m_translate (calls_all cs s) = m_translate s"
  "m_translate (createScreenQuad E w h s) = m_translate s"
  "m_translate (init_engines E s) = m_translate s"
  "m_translate (init_scene s) = m_translate s"
  "m_translate (RebuildOptixGraph E sh s) = m_translate s"
  "m_translate (init_members E s) = Vector3DF (FLit (- 200)) (FLit 0) (FLit (- 400))"
  by (simp_all add: calls_all_members createScreenQuad_def init_engines_def init_scene_def
      RebuildOptixGraph_def init_members_def call_members add_materials_members Let_def
      case_prod_beta)

lemma move_volume_members:
  "sample (move_volume s) = sample s" "mouse_down (move_volume s) = mouse_down s"
  by (simp_all add: move_volume_def call_members)

section \<open>The counters across display ticks\<close>

lemma display_frame_sample:
  "frame (display s) = (if sample s + 1 <s max_samples s then frame s else frame s + 1)"
  "sample (display s) = (if sample s + 1 <s max_samples s then sample s + 1 else 0)"
  "max_samples (display s) = max_samples s"
  by (simp_all add: display_def call_def Let_def)

text \<open>
  C1, as stated, at \<open>(frame, sample) = (0, 1023)\<close> with \<open>max_samples = 1024\<close>:
  \<open>sample < max_samples\<close> holds, and the tick does not yield \<open>(frame, sample + 1)\<close>.
\<close>

theorem display_tick_as_stated_fails:
  "sample (fresh\<lparr>sample := 1023, max_samples := 1024\<rparr>)
     <s max_samples (fresh\<lparr>sample := 1023, max_samples := 1024\<rparr>) \<and>
   (frame (display (fresh\<lparr>sample := 1023, max_samples := 1024\<rparr>)),
    sample (display (fresh\<lparr>sample := 1023, max_samples := 1024\<rparr>))) \<noteq> (0, 1024)"
  by (simp add: display_frame_sample fresh_def word_sless_alt)

text \<open>
  C1, amended: one display tick from \<open>(frame, sample)\<close> yields \<open>(frame, sample + 1)\<close> if
  \<open>sample + 1 < max_samples\<close>, and \<open>(frame + 1, 0)\<close> if \<open>sample = max_samples - 1\<close>. The
  comparisons are those of the integers the counters stand for.
\<close>

theorem display_tick:
  "(sint (sample s) + 1 < sint (max_samples s) \<longrightarrow>
      (frame (display s), sample (display s)) = (frame s, sample s + 1)) \<and>
   (sint (sample s) = sint (max_samples s) - 1 \<longrightarrow>
      (frame (display s), sample (display s)) = (frame s + 1, 0))"
proof (intro conjI impI)
  assume h: "sint (sample s) + 1 < sint (max_samples s)"
  then have "sint (sample s) + 1 < 2 ^ 31"
    using sint_max_bound [of "max_samples s"] by linarith
  then have "sint (sample s + 1) = sint (sample s) + 1" by (rule sint_succ)
  with h have "sample s + 1 <s max_samples s" by (simp add: word_sless_alt)
  then show "(frame (display s), sample (display s)) = (frame s, sample s + 1)"
    by (simp add: display_frame_sample)
next
  assume h: "sint (sample s) = sint (max_samples s) - 1"
  then have "sint (sample s) + 1 < 2 ^ 31"
    using sint_max_bound [of "max_samples s"] by linarith
  then have "sint (sample s + 1) = sint (sample s) + 1" by (rule sint_succ)
  with h have "\<not> sample s + 1 <s max_samples s" by (simp add: word_sless_alt)
  then show "(frame (display s), sample (display s)) = (frame s + 1, 0)"
    by (simp add: display_frame_sample)
qed

theorem display_tick_witness:
  "sint (5 :: int32) + 1 < sint (1024 :: int32) \<and>
   (frame (display (fresh\<lparr>sample := 5, max_samples := 1024\<rparr>)),
    sample (display (fresh\<lparr>sample := 5, max_samples := 1024\<rparr>))) = (0, 6) \<and>
   sint (1023 :: int32) = sint (1024 :: int32) - 1 \<and>
   (frame (display (fresh\<lparr>sample := 1023, max_samples := 1024\<rparr>)),
    sample (display (fresh\<lparr>sample := 1023, max_samples := 1024\<rparr>))) = (1, 0)"
  using display_tick [of "fresh\<lparr>sample := 5, max_samples := 1024\<rparr>"]
        display_tick [of "fresh\<lparr>sample := 1023, max_samples := 1024\<rparr>"]
  by (simp add: fresh_def)

text \<open>
  C6, as stated, on the members \<open>init\<close> sets (\<open>frame = 0\<close>, \<open>sample = 0\<close>, ray-tracing
  backend): the tick advances \<open>sample\<close> to 1, and the backend was told \<open>(0, 0)\<close>, never
  \<open>(0, 1)\<close>.
\<close>

theorem display_informs_before_advance:
  "sample (display (init_members env0 fresh)) = 1 \<and>
   Optx (SetSample 0 1) \<notin> set (calls (display (init_members env0 fresh))) \<and>
   Optx (SetSample 0 0) \<in> set (calls (display (init_members env0 fresh)))"
  by (simp add: display_def Let_def call_members call_calls init_members_def fresh_def
      word_sless_alt)

lemma display_calls:
  assumes "m_render_optix s"
  shows "calls (display s) =
    calls s @ [Optx (SetSample (frame s) (sample s)), Window clearScreenGL] @
    (if sample s + 1 <s max_samples s then [Window postRedisplay] else []) @
    [Optx (Render (m_shading s) 0), Optx (ReadOutputTex (gl_screen_tex s)),
     Window (renderScreenQuadGL (gl_screen_tex s)), Window postRedisplay]"
  using assms by (simp add: display_def Let_def call_members call_calls)

lemma display_at_call:
  assumes "m_render_optix s"
  shows "at_call (display s) =
    at_call s @ [(frame s, sample s), (frame s, sample s)] @
    (if sample s + 1 <s max_samples s then [(frame s, sample s + 1)] else []) @
    replicate 4 (frame (display s), sample (display s))"
  using assms
  by (simp add: display_def Let_def call_members call_calls call_at numeral_eq_Suc)

text \<open>
  C6, amended: in every display tick with the ray-tracing backend, the backend is told
  the \<open>(frame, sample)\<close> pair first, with the values from before the advancement, and
  the advancement happens after that call and strictly before the render dispatch and the
  read-back: the members still hold \<open>(frame, sample)\<close> when \<open>SetSample\<close> is called and
  already hold the pair the tick ends with when \<open>Render\<close> and \<open>ReadOutputTex\<close> are
  called. The calls of one tick, in order, each with the counters at that moment:
\<close>

theorem display_backend_calls:
  assumes "m_render_optix s"
  shows
   "tick_trace s =
      [(Optx (SetSample (frame s) (sample s)), frame s, sample s),
       (Window clearScreenGL, frame s, sample s)] @
      (if sample s + 1 <s max_samples s then [(Window postRedisplay, frame s, sample s + 1)]
       else []) @
      [(Optx (Render (m_shading s) 0), frame (display s), sample (display s)),
       (Optx (ReadOutputTex (gl_screen_tex s)), frame (display s), sample (display s)),
       (Window (renderScreenQuadGL (gl_screen_tex s)), frame (display s), sample (display s)),
       (Window postRedisplay, frame (display s), sample (display s))] \<and>
    (frame (display s), sample (display s)) =
      (if sample s + 1 <s max_samples s then (frame s, sample s + 1) else (frame s + 1, 0)) \<and>
    calls (display s) = calls s @ map fst (tick_trace s)"
proof -
  have t: "tick_trace s =
      [(Optx (SetSample (frame s) (sample s)), frame s, sample s),
       (Window clearScreenGL, frame s, sample s)] @
      (if sample s + 1 <s max_samples s then [(Window postRedisplay, frame s, sample s + 1)]
       else []) @
      [(Optx (Render (m_shading s) 0), frame (display s), sample (display s)),
       (Optx (ReadOutputTex (gl_screen_tex s)), frame (display s), sample (display s)),
       (Window (renderScreenQuadGL (gl_screen_tex s)), frame (display s), sample (display s)),
       (Window postRedisplay, frame (display s), sample (display s))]"
    unfolding tick_trace_def display_calls [OF assms] display_at_call [OF assms]
    by (simp add: numeral_eq_Suc)
  have c: "calls (display s) = calls s @ map fst (tick_trace s)"
    unfolding t by (simp add: display_calls [OF assms])
  show ?thesis
    using t c by (simp add: display_frame_sample)
qed

theorem display_backend_calls_witness:
  "m_render_optix (init_members env0 fresh) \<and>
   tick_trace (init_members env0 fresh) =
     [(Optx (SetSample 0 0), 0, 0), (Window clearScreenGL, 0, 0),
      (Window postRedisplay, 0, 1), (Optx (Render 7 0), 0, 1),
      (Optx (ReadOutputTex (- 1)), 0, 1), (Window (renderScreenQuadGL (- 1)), 0, 1),
      (Window postRedisplay, 0, 1)] \<and>
   m_render_optix (init_members env0 fresh\<lparr>sample := 1023\<rparr>) \<and>
   tick_trace (init_members env0 fresh\<lparr>sample := 1023\<rparr>) =
     [(Optx (SetSample 0 1023), 0, 1023), (Window clearScreenGL, 0, 1023),
      (Optx (Render 7 0), 1, 0),
      (Optx (ReadOutputTex (- 1)), 1, 0), (Window (renderScreenQuadGL (- 1)), 1, 0),
      (Window postRedisplay, 1, 0)]"
proof -
  have m: "m_render_optix (init_members env0 fresh)"
    "m_render_optix (init_members env0 fresh\<lparr>sample := 1023\<rparr>)"
    by (simp_all add: init_members_def)
  show ?thesis
    using m display_backend_calls [OF m(1)] display_backend_calls [OF m(2)]
    by (simp add: init_members_def fresh_def env0_def word_sless_alt)
qed

lemma ticks_below:
  assumes "sample s = 0" "max_samples s = 1024"
  shows "n < 1024 \<Longrightarrow>
    sample ((display ^^ n) s) = of_nat n \<and> frame ((display ^^ n) s) = frame s \<and>
    max_samples ((display ^^ n) s) = 1024"
proof (induction n)
  case 0
  then show ?case using assms by simp
next
  case (Suc n)
  then have ih: "sample ((display ^^ n) s) = of_nat n" "frame ((display ^^ n) s) = frame s"
     "max_samples ((display ^^ n) s) = 1024" by simp_all
  have "sint (of_nat (Suc n) :: int32) = int (Suc n)"
    using Suc.prems by (intro sint_of_nat32) simp
  then have "sint (of_nat n + 1 :: int32) < sint (1024 :: int32)"
    using Suc.prems by (simp add: add.commute)
  then have "(of_nat n + 1 :: int32) <s 1024"
    by (simp only: word_sless_alt)
  then show ?case using ih by (simp add: display_frame_sample)
qed

section \<open>Initialisation\<close>

lemma init_form:
  assumes "init E s = Inr s0"
  shows "\<exists>scnpath. s0 = (if m_render_optix (init_tail E s scnpath)
           then RebuildOptixGraph E (m_shading (init_tail E s scnpath)) (init_tail E s scnpath)
           else init_tail E s scnpath)"
proof -
  let ?s1 = "init_engines E (init_members E s)"
  obtain found scnpath where
    f: "FindFile_result E (calls ?s1) ''wdas_cloud_eighth.vdb'' = (found, scnpath)"
    by (cases "FindFile_result E (calls ?s1) ''wdas_cloud_eighth.vdb''")
  show ?thesis
    using assms f by (intro exI [of _ scnpath]) (simp add: init_def init_tail_def Let_def split: if_splits)
qed

lemma init_tail_members:
  "frame (init_tail E s p) = 0" "sample (init_tail E s p) = 0"
  "max_samples (init_tail E s p) = 1024"
  "m_translate (init_tail E s p) = Vector3DF (FLit (- 200)) (FLit 0) (FLit (- 400))"
  by (simp_all add: init_tail_def createScreenQuad_members call_members init_scene_members
      init_engines_members init_members_counters m_translate_members)

lemma init_counters:
  assumes "init E s = Inr s0"
  shows "frame s0 = 0 \<and> sample s0 = 0 \<and> max_samples s0 = 1024"
  using init_form [OF assms] by (auto simp add: rebuild_members init_tail_members)

lemma init_translate:
  assumes "init E s = Inr s0"
  shows "m_translate s0 = Vector3DF (FLit (- 200)) (FLit 0) (FLit (- 400))"
  using init_form [OF assms] by (auto simp add: m_translate_members init_tail_members)

lemma init_tail_transform:
  "Gvdb (SetTransform (Vector3DF (FLit 0) (FLit 90) (FLit 0))
           (Vector3DF (FLit (1/4)) (FLit (1/4)) (FLit (1/4)))
           (Vector3DF (FLit 0) (FLit 0) (FLit 0))
           (Vector3DF (FLit (- 200)) (FLit 0) (FLit (- 400)))) \<in> set (calls (init_tail E s p))"
  by (simp add: init_tail_def createScreenQuad_calls call_calls init_scene_def calls_all_calls
      call_members m_translate_members)

lemma init_transform:
  assumes "init E s = Inr s0"
  shows "Gvdb (SetTransform (Vector3DF (FLit 0) (FLit 90) (FLit 0))
           (Vector3DF (FLit (1/4)) (FLit (1/4)) (FLit (1/4)))
           (Vector3DF (FLit 0) (FLit 0) (FLit 0))
           (Vector3DF (FLit (- 200)) (FLit 0) (FLit (- 400)))) \<in> set (calls s0)"
  using init_form [OF assms] init_tail_transform [of E s]
  by (auto simp add: rebuild_calls add_materials_calls)

lemma orbit_angles_snoc: "orbit_angles (cs @ [c]) = orbit_step (orbit_angles cs) c"
  by (simp add: orbit_angles_def)




lemma init_env0: "init env0 fresh = Inr session0"
proof -
  have f: "FindFile_result env0 = (\<lambda>cs name. (True, ''assets/'' @ name))"
     "LoadVDB_result env0 = (\<lambda>cs path. True)"
    by (simp_all add: env0_def)
  have "\<exists>s0. init env0 fresh = Inr s0"
    by (simp add: init_def Let_def f)
  then show ?thesis by (auto simp add: session0_def)
qed

text \<open>
  C8: from the state a successful \<open>init\<close> returns (\<open>frame = 0\<close>, \<open>sample = 0\<close>,
  \<open>max_samples = 1024\<close>), 1024 display ticks with nothing in between end with
  \<open>frame = 1\<close> and \<open>sample = 0\<close>.
\<close>

theorem ticks_1024:
  assumes "init E s = Inr s0"
  shows "frame ((display ^^ 1024) s0) = 1 \<and> sample ((display ^^ 1024) s0) = 0"
proof -
  have c: "frame s0 = 0" "sample s0 = 0" "max_samples s0 = 1024"
    using init_counters [OF assms] by simp_all
  have b: "sample ((display ^^ 1023) s0) = 1023" "frame ((display ^^ 1023) s0) = 0"
     "max_samples ((display ^^ 1023) s0) = 1024"
    using ticks_below [of s0 1023] c by simp_all
  have "(display ^^ 1024) s0 = display ((display ^^ 1023) s0)"
    by (simp add: numeral_eq_Suc)
  then show ?thesis using b by (simp add: display_frame_sample word_sless_alt)
qed

theorem ticks_1024_witness:
  "init env0 fresh = Inr session0 \<and>
   frame ((display ^^ 1024) session0) = 1 \<and> sample ((display ^^ 1024) session0) = 0"
  using init_env0 ticks_1024 [OF init_env0] by simp

section \<open>The scene graph builder\<close>

text \<open>
  C3, as stated, with \<open>sample = 5\<close> before the call: the rebuild leaves \<open>sample\<close> at 5.
\<close>

theorem rebuild_no_reset:
  "(frame (RebuildOptixGraph env0 7 (fresh\<lparr>sample := 5\<rparr>)),
    sample (RebuildOptixGraph env0 7 (fresh\<lparr>sample := 5\<rparr>))) \<noteq>
   (frame (fresh\<lparr>sample := 5\<rparr>), 0)"
  by (simp add: rebuild_members)

text \<open>
  C3, amended: \<open>RebuildOptixGraph\<close> does not write \<open>frame\<close> or \<open>sample\<close>; the
  accumulation state after the call is the one before it.
\<close>

theorem rebuild_keeps_accumulation:
  "(frame (RebuildOptixGraph E sh s), sample (RebuildOptixGraph E sh s)) = (frame s, sample s)"
  by (simp add: rebuild_members)

lemma graph_calls_materials:
  "take 5 (graph_calls E sh s) =
      [Optx ClearGraph,
       Optx (AddMaterial ''optix_trace_surface'' ''trace_surface'' ''trace_shadow''),
       Optx (SetMaterialParams (mat_surf1 (add_materials E s)) matp),
       Optx (AddMaterial ''optix_trace_deep'' ''trace_deep'' ''trace_shadow''),
       Optx (SetMaterialParams (mat_deep (add_materials E s)) matp)]"
  by (simp add: graph_calls_def rebuild_calls add_materials_calls)

lemma graph_calls_volume:
  "volume_nodes (graph_calls E sh s) =
     [(if sh = SHADE_TRILINEAR E then (mat_surf1 (add_materials E s), CHR ''S'')
       else if sh = SHADE_VOLUME E then (mat_deep (add_materials E s), CHR ''D'')
       else if sh = SHADE_EMPTYSKIP E then (mat_surf1 (add_materials E s), CHR ''E'')
       else (uninit_matid E, uninit_isect E))]"
  by (simp add: graph_calls_def rebuild_calls add_materials_calls volume_nodes_def)

text \<open>
  C2, as stated, at the mode value 0, which is none of the three: the builder returns as
  for any other value, having cleared the graph, registered both materials and added a
  volume node (with the indeterminate pair) and the geometry node.
\<close>

theorem rebuild_invalid_mode_builds:
  "0 \<noteq> SHADE_TRILINEAR env0 \<and> 0 \<noteq> SHADE_VOLUME env0 \<and> 0 \<noteq> SHADE_EMPTYSKIP env0 \<and>
   calls (RebuildOptixGraph env0 0 fresh) =
     [Optx ClearGraph,
      Optx (AddMaterial ''optix_trace_surface'' ''trace_surface'' ''trace_shadow''),
      Optx (SetMaterialParams 0 matp),
      Optx (AddMaterial ''optix_trace_deep'' ''trace_deep'' ''trace_shadow''),
      Optx (SetMaterialParams 1 matp),
      Optx (AddVolume 1 (Vector3DF (FLit 0) (FLit 0) (FLit 0))
              (Vector3DF (FLit 100) (FLit 100) (FLit 100)) Identity4F 0 CHR ''?''),
      Optx (AddPolygons 0 0 Identity4F), Optx SetTransferFunc, Optx ValidateGraph,
      Optx UpdateVolume]"
proof -
  have m: "mat_surf1 (add_materials env0 fresh) = 0" "mat_deep (add_materials env0 fresh) = 1"
    by (simp_all add: add_materials_surf1 add_materials_deep)
       (simp_all add: env0_def fresh_def)
  have c: "calls fresh = []" by (simp add: fresh_def)
  have e: "SHADE_TRILINEAR env0 = 4" "SHADE_VOLUME env0 = 7" "SHADE_EMPTYSKIP env0 = 3"
    "uninit_matid env0 = 0" "uninit_isect env0 = CHR ''?''"
    "getAtlasGLID env0 = (\<lambda>cs chan. 1)"
    "getWorldMin env0 = (\<lambda>cs. Vector3DF (FLit 0) (FLit 0) (FLit 0))"
    "getWorldMax env0 = (\<lambda>cs. Vector3DF (FLit 100) (FLit 100) (FLit 100))"
    by (simp_all add: env0_def)
  show ?thesis
    by (simp add: rebuild_calls add_materials_calls m c e)
qed

text \<open>
  C2, amended: the builder selects \<open>(surface material, S)\<close> for trilinear,
  \<open>(deep material, D)\<close> for volume and \<open>(surface material, E)\<close> for empty-skip, and the
  one volume node it adds carries that pair. It has no error result: for every mode value,
  one of the three or not, its first five calls clear the graph and register the two
  materials.
\<close>

theorem rebuild_selects_pair:
  assumes "wf_env E"
  shows
   "take 5 (graph_calls E sh s) =
      [Optx ClearGraph,
       Optx (AddMaterial ''optix_trace_surface'' ''trace_surface'' ''trace_shadow''),
       Optx (SetMaterialParams (mat_surf1 (RebuildOptixGraph E sh s)) matp),
       Optx (AddMaterial ''optix_trace_deep'' ''trace_deep'' ''trace_shadow''),
       Optx (SetMaterialParams (mat_deep (RebuildOptixGraph E sh s)) matp)] \<and>
    (sh = SHADE_TRILINEAR E \<longrightarrow>
       volume_nodes (graph_calls E sh s) = [(mat_surf1 (RebuildOptixGraph E sh s), CHR ''S'')]) \<and>
    (sh = SHADE_VOLUME E \<longrightarrow>
       volume_nodes (graph_calls E sh s) = [(mat_deep (RebuildOptixGraph E sh s), CHR ''D'')]) \<and>
    (sh = SHADE_EMPTYSKIP E \<longrightarrow>
       volume_nodes (graph_calls E sh s) = [(mat_surf1 (RebuildOptixGraph E sh s), CHR ''E'')])"
  using assms
  by (auto simp add: wf_env_def graph_calls_materials graph_calls_volume rebuild_members)

theorem rebuild_selects_pair_witness:
  "wf_env env0 \<and>
   4 = SHADE_TRILINEAR env0 \<and> volume_nodes (graph_calls env0 4 fresh) = [(0, CHR ''S'')] \<and>
   7 = SHADE_VOLUME env0 \<and> volume_nodes (graph_calls env0 7 fresh) = [(1, CHR ''D'')] \<and>
   3 = SHADE_EMPTYSKIP env0 \<and> volume_nodes (graph_calls env0 3 fresh) = [(0, CHR ''E'')] \<and>
   take 5 (graph_calls env0 7 fresh) =
      [Optx ClearGraph,
       Optx (AddMaterial ''optix_trace_surface'' ''trace_surface'' ''trace_shadow''),
       Optx (SetMaterialParams 0 matp),
       Optx (AddMaterial ''optix_trace_deep'' ''trace_deep'' ''trace_shadow''),
       Optx (SetMaterialParams 1 matp)]"
proof -
  have w: "wf_env env0" by (simp add: wf_env_def env0_def)
  have e: "SHADE_TRILINEAR env0 = 4" "SHADE_VOLUME env0 = 7" "SHADE_EMPTYSKIP env0 = 3"
    by (simp_all add: env0_def)
  have m: "mat_surf1 (add_materials env0 fresh) = 0" "mat_deep (add_materials env0 fresh) = 1"
    by (simp_all add: add_materials_surf1 add_materials_deep)
       (simp_all add: env0_def fresh_def)
  show ?thesis
    using w rebuild_selects_pair [OF w, of 4 fresh] rebuild_selects_pair [OF w, of 7 fresh]
      rebuild_selects_pair [OF w, of 3 fresh]
    by (simp add: e m rebuild_members)
qed

section \<open>Window events\<close>

text \<open>
  C10: \<open>reshape\<close> leaves \<open>frame\<close> and \<open>sample\<close> as they were; what it does is resize
  the viewport, the screen texture, the render buffer and the ray-tracing output, and
  request a redraw.
\<close>

theorem reshape_keeps_accumulation:
  "frame (reshape E s w h) = frame s \<and> sample (reshape E s w h) = sample s \<and>
   calls (reshape E s w h) =
     calls s @
       [Window (glViewport 0 0 w h), Window (createScreenQuadGL (gl_screen_tex s) w h),
        Gvdb (ResizeRenderBuf 0 w h 4)] @
       (if m_render_optix s then [Optx (ResizeOutput w h)] else []) @
       [Window postRedisplay]"
  by (simp add: reshape_def Let_def call_members call_calls createScreenQuad_members
      createScreenQuad_calls)

text \<open>
  C9: a pointer-motion event while \<open>mouse_down\<close> is \<open>-1\<close> changes nothing: no member
  and no call, so camera, light, volume transform and both counters stay; a press stores
  the pressed button in \<open>mouse_down\<close> and a release stores \<open>-1\<close>.
\<close>

theorem idle_motion_and_buttons:
  assumes "wf_env E"
  shows "(mouse_down s = - 1 \<longrightarrow> motion E s x y dx dy = s) \<and>
         mouse_down (mouse E s button (BUTTON_PRESS E) mds x y) = button \<and>
         mouse_down (mouse E s button (BUTTON_RELEASE E) mds x y) = - 1"
  using assms by (auto simp add: wf_env_def motion_def mouse_def Let_def)

theorem idle_motion_and_buttons_witness:
  "wf_env env0 \<and> mouse_down (init_members env0 fresh) = - 1 \<and>
   motion env0 (init_members env0 fresh) 3 4 10 (- 5) = init_members env0 fresh \<and>
   mouse_down (mouse env0 (init_members env0 fresh) 2 (BUTTON_PRESS env0) 0 3 4) = 2 \<and>
   mouse_down (mouse env0 (mouse env0 (init_members env0 fresh) 2 (BUTTON_PRESS env0) 0 3 4)
                 2 (BUTTON_RELEASE env0) 0 3 4) = - 1"
proof -
  have w: "wf_env env0" by (simp add: wf_env_def env0_def)
  have m: "mouse_down (init_members env0 fresh) = - 1" by (simp add: init_members_def)
  show ?thesis
    using w m idle_motion_and_buttons [OF w, of "init_members env0 fresh" 3 4 10 "- 5" 2 0]
      idle_motion_and_buttons [OF w, of "mouse env0 (init_members env0 fresh) 2 (BUTTON_PRESS env0) 0 3 4" 3 4 10 "- 5" 2 0]
    by simp
qed

lemma motion_mouse_down: "mouse_down (motion E s x y dx dy) = mouse_down s"
  by (simp add: motion_def Let_def call_members move_volume_members)

lemma motion_held:
  assumes "held E s"
  shows "sample (motion E s x y dx dy) = 0 \<and> last (calls (motion E s x y dx dy)) = Window postRedisplay"
  using assms by (auto simp add: held_def motion_def Let_def call_members call_calls)

lemma motion_event_held:
  assumes "held E s"
  shows "held E (motion_event E s ev) \<and> sample (motion_event E s ev) = 0 \<and>
         last (calls (motion_event E s ev)) = Window postRedisplay"
proof -
  obtain m x y dx dy where ev: "ev = (m, x, y, dx, dy)" by (cases ev)
  have h: "held E (s\<lparr>mods := m\<rparr>)" using assms by (simp add: held_def)
  show ?thesis
    using motion_held [OF h] h by (simp add: ev held_def motion_mouse_down)
qed

lemma drag_held: "held E s \<Longrightarrow> held E (drag E s evs)"
  unfolding drag_def
  by (induction evs arbitrary: s) (simp_all add: motion_event_held)

text \<open>
  C5: in a sequence of pointer-motion events processed while a button is held, with or
  without the modifier at each event, \<open>sample\<close> is 0 after each event (after the first
  \<open>n\<close> of them, for every \<open>n > 0\<close>) and the last call made is the redraw request.
\<close>

theorem drag_resets_sample:
  assumes "held E s" "0 < n" "n \<le> length evs"
  shows "sample (drag E s (take n evs)) = 0 \<and>
         last (calls (drag E s (take n evs))) = Window postRedisplay"
proof -
  from assms have "take n evs \<noteq> []" by auto
  then obtain ys e where ye: "take n evs = ys @ [e]"
    by (cases "take n evs" rule: rev_cases) auto
  have "drag E s (take n evs) = motion_event E (drag E s ys) e"
    by (simp add: ye drag_def)
  then show ?thesis
    using motion_event_held [OF drag_held [OF assms(1)], of ys e] by simp
qed

theorem drag_resets_sample_witness:
  "held env0 (fresh\<lparr>sample := 9\<rparr>) \<and> (0::nat) < 2 \<and>
   (2::nat) \<le> length [(0, 5, 5, 10, - 5), (1, 6, 5, 1, 0), (0, 6, 6, 0, 1) :: motion_event] \<and>
   sample (drag env0 (fresh\<lparr>sample := 9\<rparr>) [(0, 5, 5, 10, - 5), (1, 6, 5, 1, 0)]) = 0 \<and>
   last (calls (drag env0 (fresh\<lparr>sample := 9\<rparr>) [(0, 5, 5, 10, - 5), (1, 6, 5, 1, 0)]))
     = Window postRedisplay"
proof -
  have h: "held env0 (fresh\<lparr>sample := 9\<rparr>)" by (simp add: held_def env0_def fresh_def)
  show ?thesis
    using h drag_resets_sample [OF h, of 2 "[(0, 5, 5, 10, - 5), (1, 6, 5, 1, 0), (0, 6, 6, 0, 1)]"]
    by simp
qed



text \<open>
  The calls of a left-button event with the modifier held.
\<close>

lemma motion_left_shift:
  assumes "mouse_down s = MOUSE_BUTTON_LEFT E" "mods s AND KMOD_SHIFT E \<noteq> 0"
  shows "calls (motion E s x y dx dy) =
    calls s @
      [Gvdb (SetTransform (Vector3DF (FLit 0) (FLit 0) (FLit 0))
               (Vector3DF (FLit (1/4)) (FLit (1/4)) (FLit (1/4)))
               (Vector3DF (FLit 0) (FLit 0) (FLit 0))
               (Vector3DF (FSub (vec_x (m_translate s)) (FInt dx)) (vec_y (m_translate s))
                  (FSub (vec_z (m_translate s)) (FInt dy)))),
       Window postRedisplay]"
  using assms by (simp add: motion_def move_volume_def Let_def call_members call_calls)

text \<open>
  C4, at the session \<open>init\<close> returns, left button pressed with the modifier held, one
  motion event with \<open>dx = 1\<close>, \<open>dy = 0\<close>: \<open>init\<close> called \<open>SetTransform\<close> with
  \<open>(0, 90, 0)\<close> as its first argument, the event calls it with \<open>(0, 0, 0)\<close>; scale and
  third argument are the same in both.
\<close>

theorem drag_passes_other_first_argument:
  "init env0 fresh = Inr session0 \<and>
   Gvdb (SetTransform (Vector3DF (FLit 0) (FLit 90) (FLit 0))
           (Vector3DF (FLit (1/4)) (FLit (1/4)) (FLit (1/4)))
           (Vector3DF (FLit 0) (FLit 0) (FLit 0))
           (Vector3DF (FLit (- 200)) (FLit 0) (FLit (- 400)))) \<in> set (calls session0) \<and>
   calls (motion env0 ((mouse env0 session0 0 1 1 0 0)\<lparr>mods := 1\<rparr>) 0 0 1 0) =
     calls session0 @
       [Gvdb (SetTransform (Vector3DF (FLit 0) (FLit 0) (FLit 0))
                (Vector3DF (FLit (1/4)) (FLit (1/4)) (FLit (1/4)))
                (Vector3DF (FLit 0) (FLit 0) (FLit 0))
                (Vector3DF (FSub (FLit (- 200)) (FInt 1)) (FLit 0) (FSub (FLit (- 400)) (FInt 0)))),
        Window postRedisplay]"
proof -
  let ?s = "(mouse env0 session0 0 1 1 0 0)\<lparr>mods := 1\<rparr>"
  have e: "MOUSE_BUTTON_LEFT env0 = 0" "BUTTON_PRESS env0 = 1" "KMOD_SHIFT env0 = 1"
    by (simp_all add: env0_def)
  have a: "mouse_down ?s = MOUSE_BUTTON_LEFT env0" by (simp add: mouse_def e)
  have b: "mods ?s AND KMOD_SHIFT env0 \<noteq> 0" by (simp add: e)
  have c: "calls ?s = calls session0" "m_translate ?s = m_translate session0"
    by (simp_all add: mouse_def)
  show ?thesis
    using init_env0 init_transform [OF init_env0] init_translate [OF init_env0]
      motion_left_shift [OF a b, of 0 0 1 0]
    by (simp add: c)
qed

end
